theory Spec2Isabelle
  imports Main "HOL-Library.Sublist" "HOL-Library.List_Lexorder" "HOL-Library.Char_ord"
begin

section \<open>Python strings and containers\<close>

text \<open>
  Strings are ASCII strings (\<open>char list\<close>). Python compares strings lexicographically by
  code point, which is the order of \<open>HOL-Library.List_Lexorder\<close> over \<open>Char_ord\<close>;
  \<open>sorted\<close> on strings is \<open>sort\<close>. \<open>sub in s\<close> on strings is \<open>sublist sub s\<close>.
\<close>

definition py_upper_char :: "char \<Rightarrow> char" where
  "py_upper_char c =
     (case map_of (zip ''abcdefghijklmnopqrstuvwxyz'' ''ABCDEFGHIJKLMNOPQRSTUVWXYZ'') c of
        Some u \<Rightarrow> u | None \<Rightarrow> c)"

definition py_upper :: "string \<Rightarrow> string" where
  "py_upper s = map py_upper_char s"

definition py_isspace :: "char \<Rightarrow> bool" where
  "py_isspace c = (c \<in> set [CHR '' '', CHR 0x09, CHR 0x0A, CHR 0x0B, CHR 0x0C, CHR 0x0D,
                               CHR 0x1C, CHR 0x1D, CHR 0x1E, CHR 0x1F])"

definition py_strip :: "string \<Rightarrow> string" where
  "py_strip s = rev (dropWhile py_isspace (rev (dropWhile py_isspace s)))"

definition py_isdigit :: "char \<Rightarrow> bool" where
  "py_isdigit c = (c \<in> set ''0123456789'')"

definition digit_val :: "char \<Rightarrow> nat" where
  "digit_val c = (case map_of (zip ''0123456789'' [0, 1, 2, 3, 4, 5, 6, 7, 8, 9]) c of
                    Some d \<Rightarrow> d | None \<Rightarrow> 0)"

definition digit_char :: "nat \<Rightarrow> char" where
  "digit_char d = (''0123456789'' ! (d mod 10))"

text \<open>\<open>str(n)\<close> for a non-negative Python integer.\<close>

function str_nat :: "nat \<Rightarrow> string" where
  "str_nat n = (if n < 10 then [digit_char n] else str_nat (n div 10) @ [digit_char (n mod 10)])"
  by pat_completeness auto
termination
  by (relation "measure id") auto

declare str_nat.simps [simp del]

text \<open>
  A Python \<open>set\<close> of strings is a duplicate-free list in insertion order: only membership,
  size and the sorted content of a set are observed by the code modelled here.
  A \<open>dict\<close> whose iteration order is observed is an association list in insertion order.
\<close>

definition set_add :: "'a \<Rightarrow> 'a list \<Rightarrow> 'a list" where
  "set_add x xs = (if x \<in> set xs then xs else xs @ [x])"

definition set_update :: "'a list \<Rightarrow> 'a list \<Rightarrow> 'a list" where
  "set_update xs ys = foldl (\<lambda>acc y. set_add y acc) xs ys"

fun dict_upd :: "'k \<Rightarrow> 'v \<Rightarrow> ('v \<Rightarrow> 'v) \<Rightarrow> ('k \<times> 'v) list \<Rightarrow> ('k \<times> 'v) list" where
  "dict_upd k d f [] = [(k, f d)]"
| "dict_upd k d f ((k', v) # kvs) =
     (if k = k' then (k', f v) # kvs else (k', v) # dict_upd k d f kvs)"

text \<open>\<open>d.setdefault(k, set()).add(v)\<close> and \<open>d.setdefault(k, []).append(v)\<close>.\<close>

definition dict_add :: "'k \<Rightarrow> 'a \<Rightarrow> ('k \<times> 'a list) list \<Rightarrow> ('k \<times> 'a list) list" where
  "dict_add k v d = dict_upd k [] (set_add v) d"

definition dict_append :: "'k \<Rightarrow> 'a \<Rightarrow> ('k \<times> 'a list) list \<Rightarrow> ('k \<times> 'a list) list" where
  "dict_append k v d = dict_upd k [] (\<lambda>xs. xs @ [v]) d"

definition dict_get :: "('k \<times> 'a list) list \<Rightarrow> 'k \<Rightarrow> 'a list" where
  "dict_get d k = (case map_of d k of Some v \<Rightarrow> v | None \<Rightarrow> [])"

section \<open>Data model\<close>

text \<open>
  The snapshot as \<open>extract_skidl_design.snapshot_from_circuit\<close> builds it: \<open>pin_id\<close> and
  \<open>pin_name\<close> are strings, \<open>net\<close> is a string or \<open>None\<close>; \<open>pin_role\<close>, \<open>category\<close> and the
  endpoint annotations are absent until augmentation fills them.
\<close>

record pin =
  pin_id :: string
  pin_name :: string
  net :: "string option"
  pin_role :: "string option"

record component =
  ref :: string
  part_id :: string
  category :: "string option"
  pins :: "pin list"

record net_endpoint =
  ep_ref :: string
  ep_pin_id :: string
  ep_pin_name :: string
  ep_pin_role :: "string option"
  ep_component_category :: "string option"

record netrec =
  name :: string
  endpoints :: "net_endpoint list"

record snapshot =
  components :: "component list"
  nets :: "netrec list"

text \<open>Truthiness of an optional string: \<open>None\<close> and \<open>''\<close> are falsy.\<close>

definition truthy :: "string option \<Rightarrow> bool" where
  "truthy v = (case v of None \<Rightarrow> False | Some s \<Rightarrow> s \<noteq> [])"

text \<open>The nets of a component's pins, \<open>{pin.get("net") for pin in pins if pin.get("net")}\<close>.\<close>

definition pin_nets :: "component \<Rightarrow> string list" where
  "pin_nets cmp = remdups (concat (map (\<lambda>p. case net p of None \<Rightarrow> [] | Some n \<Rightarrow> if n = [] then [] else [n]) (pins cmp)))"

section \<open>Skeleton matcher: component-count tolerance (match_skeleton.py)\<close>






section \<open>Knowledge-graph store (kg_loader.py)\<close>

text \<open>
  A scalar of the knowledge-graph JSON: the pin lists of an isolation-boundary entry hold
  integers or strings.
\<close>

datatype pyval = PInt int | PStr string

record kg_entry =
  kg_category :: "string option"
  kg_pin_roles :: "string \<rightharpoonup> string"
  kg_isolation_boundary :: bool
  kg_primary_pins :: "pyval list"
  kg_secondary_pins :: "pyval list"

record kg_store =
  component_map :: "string \<rightharpoonup> string option"
  kg_component_map :: "string \<rightharpoonup> kg_entry"

text \<open>
  \<open>component_map\<close> keeps of each entry of the base table its \<open>category\<close> only, the one field
  that is read. A \<open>kg_store\<close> argument that may be \<open>None\<close> is a \<open>kg_store option\<close>.
\<close>

definition normalize_part_id :: "string \<Rightarrow> string" where
  "normalize_part_id p = (if p = [] then [] else py_strip p)"

definition get_component :: "kg_store \<Rightarrow> string \<Rightarrow> kg_entry option" where
  "get_component kg p = kg_component_map kg (normalize_part_id p)"

definition get_component_info :: "kg_store \<Rightarrow> string \<Rightarrow> string option option" where
  "get_component_info kg p = component_map kg (normalize_part_id p)"

definition get_category :: "kg_store \<Rightarrow> string \<Rightarrow> string option" where
  "get_category kg p =
     (case get_component kg p of
        Some e \<Rightarrow> if truthy (kg_category e) then kg_category e
                  else (case get_component_info kg p of
                          Some c \<Rightarrow> if truthy c then c else None
                        | None \<Rightarrow> None)
      | None \<Rightarrow> (case get_component_info kg p of
                   Some c \<Rightarrow> if truthy c then c else None
                 | None \<Rightarrow> None))"

definition get_pin_roles :: "kg_store \<Rightarrow> string \<Rightarrow> (string \<rightharpoonup> string)" where
  "get_pin_roles kg p = (case get_component kg p of Some e \<Rightarrow> kg_pin_roles e | None \<Rightarrow> Map.empty)"

definition infer_category :: "string \<Rightarrow> string \<Rightarrow> kg_store option \<Rightarrow> string" where
  "infer_category p r kg =
     (let p' = normalize_part_id p;
          found = (case kg of None \<Rightarrow> None | Some k \<Rightarrow> get_category k p');
          ref_prefix = py_upper (take 1 (py_strip r))
      in if truthy found then the found
         else if p' \<in> set [''R'', ''C'', ''L'', ''D''] then ''passive''
         else if ref_prefix \<in> set [''R'', ''C'', ''L'', ''D''] then ''passive''
         else if sublist ''MOSFET'' (py_upper p') \<or> ref_prefix = ''Q'' then ''MOSFET''
         else ''unknown'')"

section \<open>Snapshot augmentation (build_topology.py)\<close>

definition augment_pin :: "(string \<rightharpoonup> string) \<Rightarrow> pin \<Rightarrow> pin" where
  "augment_pin roles p =
     p\<lparr>pin_role := (case roles (pin_id p) of
                       Some r \<Rightarrow> Some r
                     | None \<Rightarrow> roles (pin_name p))\<rparr>"

definition augment_component :: "kg_store option \<Rightarrow> component \<Rightarrow> component" where
  "augment_component kg cmp =
     (let roles = (case kg of None \<Rightarrow> Map.empty | Some k \<Rightarrow> get_pin_roles k (part_id cmp))
      in cmp\<lparr>category := Some (infer_category (part_id cmp) (ref cmp) kg),
              pins := map (augment_pin roles) (pins cmp)\<rparr>)"

fun lookup_pin_in :: "pin list \<Rightarrow> string \<Rightarrow> string \<Rightarrow> pin option" where
  "lookup_pin_in [] pid pname = None"
| "lookup_pin_in (p # ps) pid pname =
     (if pin_id p = pid \<and> pin_name p = pname then Some p
      else if pin_id p = pid then Some p
      else if pin_name p = pname then Some p
      else lookup_pin_in ps pid pname)"

fun lookup_pin_role :: "component list \<Rightarrow> string \<Rightarrow> string \<Rightarrow> string \<Rightarrow> string option" where
  "lookup_pin_role [] r pid pname = None"
| "lookup_pin_role (c # cs) r pid pname =
     (if ref c \<noteq> r then lookup_pin_role cs r pid pname
      else (case lookup_pin_in (pins c) pid pname of
              Some p \<Rightarrow> pin_role p
            | None \<Rightarrow> lookup_pin_role cs r pid pname))"

fun lookup_component_category :: "component list \<Rightarrow> string \<Rightarrow> string option" where
  "lookup_component_category [] r = None"
| "lookup_component_category (c # cs) r =
     (if ref c = r then category c else lookup_component_category cs r)"

definition augment_endpoint :: "component list \<Rightarrow> net_endpoint \<Rightarrow> net_endpoint" where
  "augment_endpoint cs ep =
     ep\<lparr>ep_pin_role := lookup_pin_role cs (ep_ref ep) (ep_pin_id ep) (ep_pin_name ep),
        ep_component_category := lookup_component_category cs (ep_ref ep)\<rparr>"

text \<open>
  \<open>augment_snapshot\<close> mutates the snapshot in place and returns it: the first loop rewrites
  the components, the second loop reads the rewritten components and rewrites the endpoints.
\<close>

definition augment_snapshot :: "snapshot \<Rightarrow> kg_store option \<Rightarrow> snapshot" where
  "augment_snapshot snap kg =
     (let cs = map (augment_component kg) (components snap)
      in snap\<lparr>components := cs,
               nets := map (\<lambda>n. n\<lparr>endpoints := map (augment_endpoint cs) (endpoints n)\<rparr>)
                           (nets snap)\<rparr>)"





definition mk_pin :: "string \<Rightarrow> string \<Rightarrow> string option \<Rightarrow> pin" where
  "mk_pin i n nt = \<lparr>pin_id = i, pin_name = n, net = nt, pin_role = None\<rparr>"

definition mk_comp :: "string \<Rightarrow> string \<Rightarrow> pin list \<Rightarrow> component" where
  "mk_comp r p ps = \<lparr>ref = r, part_id = p, category = None, pins = ps\<rparr>"

definition mk_ep :: "string \<Rightarrow> string \<Rightarrow> string \<Rightarrow> net_endpoint" where
  "mk_ep r i n = \<lparr>ep_ref = r, ep_pin_id = i, ep_pin_name = n, ep_pin_role = None,
                  ep_component_category = None\<rparr>"



text \<open>A snapshot and a store for the examples of augmentation.\<close>

definition aug_kg :: kg_store where
  "aug_kg = \<lparr>component_map = [''C'' \<mapsto> Some ''passive''],
             kg_component_map = [''UCC5390E'' \<mapsto>
               \<lparr>kg_category = Some ''ic'', kg_pin_roles = [''6'' \<mapsto> ''out'', ''VCC1'' \<mapsto> ''primary_vdd''],
                kg_isolation_boundary = True, kg_primary_pins = [PInt 1, PInt 2],
                kg_secondary_pins = [PInt 5, PInt 6]\<rparr>]\<rparr>"

definition aug_snap :: snapshot where
  "aug_snap = \<lparr>components =
                 [mk_comp ''U1'' ''UCC5390E'' [mk_pin ''1'' ''VCC1'' (Some ''VCC''), mk_pin ''6'' ''OUT'' (Some ''DRV'')],
                  mk_comp ''R1'' ''R'' [mk_pin ''1'' ''~'' (Some ''DRV''), mk_pin ''2'' ''~'' (Some ''GATE'')]],
               nets =
                 [\<lparr>name = ''VCC'', endpoints = [mk_ep ''U1'' ''1'' ''VCC1'']\<rparr>,
                  \<lparr>name = ''DRV'', endpoints = [mk_ep ''U1'' ''6'' ''OUT'', mk_ep ''R1'' ''1'' ''~'']\<rparr>,
                  \<lparr>name = ''GATE'', endpoints = [mk_ep ''R1'' ''2'' ''~'']\<rparr>]\<rparr>"

section \<open>More of Python's strings\<close>

text \<open>
  \<open>int(s)\<close> on a string: surrounding whitespace is stripped, a sign may lead, and the digits
  may be grouped by single underscores. \<open>None\<close> stands for the \<open>ValueError\<close>.
\<close>

fun digits_ok :: "string \<Rightarrow> bool" where
  "digits_ok [] = False"
| "digits_ok [c] = py_isdigit c"
| "digits_ok (c # d # cs) =
     (py_isdigit c \<and> (if d = CHR ''_'' then digits_ok cs else digits_ok (d # cs)))"

definition digits_value :: "string \<Rightarrow> nat" where
  "digits_value s = foldl (\<lambda>a c. 10 * a + digit_val c) 0 s"

definition py_int :: "string \<Rightarrow> int option" where
  "py_int s =
     (let t = py_strip s;
          neg = (take 1 t = ''-'');
          body = (if take 1 t = ''-'' \<or> take 1 t = ''+'' then drop 1 t else t)
      in if digits_ok body
         then Some ((if neg then - 1 else 1) * int (digits_value (filter py_isdigit body)))
         else None)"

definition str_int :: "int \<Rightarrow> string" where
  "str_int i = (if i < 0 then ''-'' @ str_nat (nat (- i)) else str_nat (nat i))"

definition py_str :: "pyval \<Rightarrow> string" where
  "py_str v = (case v of PInt i \<Rightarrow> str_int i | PStr s \<Rightarrow> s)"

text \<open>
  \<open>repr\<close> of an ASCII string, and of a list of strings as an f-string prints it.
\<close>

definition hex_digit :: "nat \<Rightarrow> char" where
  "hex_digit d = (''0123456789abcdef'' ! (d mod 16))"

definition repr_char :: "char \<Rightarrow> char \<Rightarrow> string" where
  "repr_char q c =
     (if c = q \<or> c = CHR 0x5C then [CHR 0x5C, c]
      else if c = CHR 0x09 then [CHR 0x5C, CHR ''t'']
      else if c = CHR 0x0A then [CHR 0x5C, CHR ''n'']
      else if c = CHR 0x0D then [CHR 0x5C, CHR ''r'']
      else if (of_char c :: nat) < 32 \<or> (of_char c :: nat) = 127
        then [CHR 0x5C, CHR ''x'', hex_digit (of_char c div 16), hex_digit (of_char c mod 16)]
      else [c])"

definition py_repr :: "string \<Rightarrow> string" where
  "py_repr s =
     (let q = (if CHR 0x27 \<in> set s \<and> CHR 0x22 \<notin> set s then CHR 0x22 else CHR 0x27)
      in [q] @ concat (map (repr_char q) s) @ [q])"

fun py_join :: "string \<Rightarrow> string list \<Rightarrow> string" where
  "py_join sep [] = []"
| "py_join sep [x] = x"
| "py_join sep (x # y # ys) = x @ sep @ py_join sep (y # ys)"

definition py_repr_list :: "string list \<Rightarrow> string" where
  "py_repr_list xs = ''['' @ py_join '', '' (map py_repr xs) @ '']''"

definition py_startswith :: "string \<Rightarrow> string \<Rightarrow> bool" where
  "py_startswith s p = prefix p s"

text \<open>\<open>s.rsplit('_', 1)\<close>: the parts around the last underscore, if there is one.\<close>

definition rsplit_underscore :: "string \<Rightarrow> (string \<times> string) option" where
  "rsplit_underscore s =
     (if CHR ''_'' \<in> set s
      then Some (rev (drop 1 (dropWhile (\<lambda>c. c \<noteq> CHR ''_'') (rev s))),
                 rev (takeWhile (\<lambda>c. c \<noteq> CHR ''_'') (rev s)))
      else None)"

definition py_str_isdigit :: "string \<Rightarrow> bool" where
  "py_str_isdigit s = (s \<noteq> [] \<and> list_all py_isdigit s)"

section \<open>Isolation domains (isolation_domain.py)\<close>

record iso_component =
  ic_ref :: string
  ic_part_id :: string
  ic_primary_pins :: "pyval list"
  ic_secondary_pins :: "pyval list"
  ic_pins :: "pin list"

record domains =
  primary :: "string list"
  secondary :: "string list list"

type_synonym net_graph = "(string \<times> string list) list"

definition find_isolation_components :: "snapshot \<Rightarrow> kg_store option \<Rightarrow> iso_component list" where
  "find_isolation_components snap kg =
     concat (map (\<lambda>cmp.
        (case (case kg of None \<Rightarrow> None | Some k \<Rightarrow> get_component k (part_id cmp)) of
           None \<Rightarrow> []
         | Some e \<Rightarrow>
             if kg_isolation_boundary e
             then [\<lparr>ic_ref = ref cmp, ic_part_id = part_id cmp,
                    ic_primary_pins = remdups (kg_primary_pins e),
                    ic_secondary_pins = remdups (kg_secondary_pins e),
                    ic_pins = pins cmp\<rparr>]
             else []))
       (components snap))"

definition pin_in_set :: "string \<Rightarrow> pyval list \<Rightarrow> bool" where
  "pin_in_set pid pin_set =
     (case py_int pid of
        Some n \<Rightarrow> PInt n \<in> set pin_set
      | None \<Rightarrow> pid \<in> set (map py_str pin_set))"

fun connect_pairs :: "string list \<Rightarrow> net_graph \<Rightarrow> net_graph" where
  "connect_pairs [] g = g"
| "connect_pairs (n1 # rest) g =
     connect_pairs rest (foldl (\<lambda>g' n2. dict_add n2 n1 (dict_add n1 n2 g')) g rest)"

definition collect_comp_pins ::
  "netrec list \<Rightarrow> net_graph \<times> (string \<times> (string \<times> string) list) list" where
  "collect_comp_pins ns =
     foldl (\<lambda>(g, cp) n.
              (dict_upd (name n) [] (\<lambda>x. x) g,
               foldl (\<lambda>cp' ep. dict_append (ep_ref ep) (ep_pin_id ep, name n) cp') cp (endpoints n)))
           ([], []) ns"

definition build_net_graph :: "snapshot \<Rightarrow> iso_component list \<Rightarrow> net_graph" where
  "build_net_graph snap ics =
     (let iso_refs = map_of (rev (map (\<lambda>ic. (ic_ref ic, ic)) ics));
          (g0, comp_pins) = collect_comp_pins (nets snap)
      in foldl (\<lambda>g (r, ps).
                  (case iso_refs r of
                     Some ic \<Rightarrow>
                       connect_pairs [n. (p, n) \<leftarrow> ps, pin_in_set p (ic_secondary_pins ic)]
                         (connect_pairs [n. (p, n) \<leftarrow> ps, pin_in_set p (ic_primary_pins ic)] g)
                   | None \<Rightarrow> connect_pairs (map snd ps) g))
               g0 comp_pins)"

text \<open>
  The loop of \<open>_bfs_connected_nets\<close>: the queue, then the visited set. A net that is popped
  unvisited joins the visited set, which can happen once for each net of the queue or of
  the graph; a net that is popped visited shortens the queue.
\<close>

function bfs_loop :: "net_graph \<Rightarrow> string list \<Rightarrow> string list \<Rightarrow> string list" where
  "bfs_loop g [] visited = visited"
| "bfs_loop g (n # queue) visited =
     (if n \<in> set visited then bfs_loop g queue visited
      else bfs_loop g (queue @ filter (\<lambda>nb. nb \<notin> set (visited @ [n])) (dict_get g n))
                    (visited @ [n]))"
  by pat_completeness auto
termination
proof (relation "inv_image (less_than <*lex*> less_than)
    (\<lambda>(g, q, v). (card ((set q \<union> \<Union> (set ` snd ` set g)) - set v), length q))")
  show "wf (inv_image (less_than <*lex*> less_than)
    (\<lambda>(g, q, v). (card ((set q \<union> \<Union> (set ` snd ` set g)) - set v), length q)))"
    by (intro wf_inv_image wf_lex_prod wf_less_than)
next
  fix g :: net_graph and n :: string and queue visited :: "string list"
  assume "n \<in> set visited"
  then have "(set (n # queue) \<union> \<Union> (set ` snd ` set g)) - set visited
           = (set queue \<union> \<Union> (set ` snd ` set g)) - set visited"
    by auto
  then show "((g, queue, visited), (g, n # queue, visited))
      \<in> inv_image (less_than <*lex*> less_than)
          (\<lambda>(g, q, v). (card ((set q \<union> \<Union> (set ` snd ` set g)) - set v), length q))"
    by simp
next
  fix g :: net_graph and n :: string and queue visited :: "string list"
  assume nv: "n \<notin> set visited"
  let ?U = "\<Union> (set ` snd ` set g)"
  let ?new = "filter (\<lambda>nb. nb \<notin> set (visited @ [n])) (dict_get g n)"
  have sub: "set (dict_get g n) \<subseteq> ?U"
  proof (cases "map_of g n")
    case None
    then show ?thesis by (simp add: dict_get_def)
  next
    case (Some v)
    then have "(n, v) \<in> set g" by (rule map_of_SomeD)
    then have "set v \<subseteq> ?U" by force
    then show ?thesis using Some by (simp add: dict_get_def)
  qed
  have fin: "finite ((set (n # queue) \<union> ?U) - set visited)"
    by simp
  have "(set (queue @ ?new) \<union> ?U) - set (visited @ [n])
          \<subset> (set (n # queue) \<union> ?U) - set visited"
    using nv sub by auto
  then have "card ((set (queue @ ?new) \<union> ?U) - set (visited @ [n]))
           < card ((set (n # queue) \<union> ?U) - set visited)"
    using fin by (rule psubset_card_mono [rotated])
  then show "((g, queue @ ?new, visited @ [n]), (g, n # queue, visited))
      \<in> inv_image (less_than <*lex*> less_than)
          (\<lambda>(g, q, v). (card ((set q \<union> \<Union> (set ` snd ` set g)) - set v), length q))"
    by simp
qed

definition bfs_connected_nets :: "string list \<Rightarrow> net_graph \<Rightarrow> string list" where
  "bfs_connected_nets start_nets g = bfs_loop g start_nets []"

definition anchor_patterns :: "string list" where
  "anchor_patterns = [''VIN'', ''VBUS'', ''VCC'', ''V12'', ''V5'', ''GND_PRI'', ''PGND'']"

definition find_primary_domain :: "snapshot \<Rightarrow> net_graph \<Rightarrow> iso_component list \<Rightarrow> string list" where
  "find_primary_domain snap g ics =
     (let s1 = foldl (\<lambda>acc n. if list_ex (\<lambda>p. sublist p (py_upper (name n))) anchor_patterns
                               then set_add (name n) acc else acc) [] (nets snap);
          s2 = (if s1 = []
                then (case find (\<lambda>n. sublist ''VIN'' (py_upper (name n))) (nets snap) of
                        Some n \<Rightarrow> [name n] | None \<Rightarrow> [])
                else s1);
          s3 = (if s2 = []
                then (case nets snap of [] \<Rightarrow> [] | n # _ \<Rightarrow> [name n])
                else s2)
      in bfs_connected_nets s3 g)"

definition secondary_start_nets :: "iso_component \<Rightarrow> string list \<Rightarrow> string list" where
  "secondary_start_nets ic all_visited =
     foldl (\<lambda>acc p.
              if pin_in_set (pin_id p) (ic_secondary_pins ic)
              then (case net p of
                      Some n \<Rightarrow> if n \<noteq> [] \<and> n \<notin> set all_visited then set_add n acc else acc
                    | None \<Rightarrow> acc)
              else acc)
           [] (ic_pins ic)"

definition secondary_step ::
  "net_graph \<Rightarrow> string list list \<times> string list \<Rightarrow> iso_component
     \<Rightarrow> string list list \<times> string list" where
  "secondary_step g st ic =
     (let (ds, all_visited) = st;
          sec_start_nets = secondary_start_nets ic all_visited
      in if sec_start_nets = [] then (ds, all_visited)
         else (let domain = filter (\<lambda>n. n \<notin> set all_visited) (bfs_connected_nets sec_start_nets g)
               in if domain = [] then (ds, all_visited)
                  else (ds @ [domain], all_visited @ domain)))"

definition find_secondary_domains ::
  "snapshot \<Rightarrow> net_graph \<Rightarrow> iso_component list \<Rightarrow> string list \<Rightarrow> string list list" where
  "find_secondary_domains snap g ics primary_nets =
     fst (foldl (secondary_step g) ([], primary_nets) ics)"

definition identify_isolation_domains :: "snapshot \<Rightarrow> kg_store option \<Rightarrow> domains" where
  "identify_isolation_domains snap kg =
     (let ics = find_isolation_components snap kg
      in if ics = [] then \<lparr>primary = remdups (map name (nets snap)), secondary = []\<rparr>
         else (let g = build_net_graph snap ics;
                   primary_nets = find_primary_domain snap g ics
               in \<lparr>primary = primary_nets,
                   secondary = find_secondary_domains snap g ics primary_nets\<rparr>))"

fun secondary_index :: "nat \<Rightarrow> string list list \<Rightarrow> string \<Rightarrow> nat option" where
  "secondary_index i [] n = None"
| "secondary_index i (d # ds) n = (if n \<in> set d then Some i else secondary_index (Suc i) ds n)"

definition get_net_domain :: "string \<Rightarrow> domains \<Rightarrow> string" where
  "get_net_domain n doms =
     (if n \<in> set (primary doms) then ''primary''
      else (case secondary_index 0 (secondary doms) n of
              Some i \<Rightarrow> ''secondary_'' @ str_nat i
            | None \<Rightarrow> ''unknown''))"

section \<open>Net conflicts (net_conflict_checker.py)\<close>

definition net_conflict_line :: "string \<Rightarrow> string \<Rightarrow> string \<Rightarrow> string" where
  "net_conflict_line n d0 d =
     ''NET CONFLICT: '' @ [CHR 0x27] @ n @ [CHR 0x27] @ '' appears in both '' @ d0 @ '' and '' @ d
       @ '' domains. This may cause unintended short circuit.''"

text \<open>
  One iteration of the loop of \<open>_check_cross_domain_nets\<close>: the state is the dict
  \<open>net_domains\<close> (net name to domain) and the errors so far.
\<close>

definition cross_domain_step ::
  "domains \<Rightarrow> (string \<times> string) list \<times> string list \<Rightarrow> netrec
     \<Rightarrow> (string \<times> string) list \<times> string list" where
  "cross_domain_step doms st n =
     (let (net_domains, errors) = st;
          d = get_net_domain (name n) doms
      in (case map_of net_domains (name n) of
            Some d0 \<Rightarrow> if d0 \<noteq> d then (net_domains, errors @ [net_conflict_line (name n) d0 d])
                       else (net_domains, errors)
          | None \<Rightarrow> (net_domains @ [(name n, d)], errors)))"

definition check_cross_domain_nets :: "snapshot \<Rightarrow> domains \<Rightarrow> string list" where
  "check_cross_domain_nets snap doms =
     (if secondary doms = [] then []
      else snd (foldl (cross_domain_step doms) ([], []) (nets snap)))"

definition check_gnd_naming :: "snapshot \<Rightarrow> domains \<Rightarrow> string list" where
  "check_gnd_naming snap doms =
     (if secondary doms = [] then []
      else (let num_domains = 1 + length (secondary doms);
                gnd_nets = [name n. n \<leftarrow> nets snap,
                             sublist ''GND'' (py_upper (name n)) \<or> py_upper (name n) = ''VSS''];
                unique_gnds = remdups gnd_nets
            in if length unique_gnds < num_domains
               then [''GND NAMING WARNING: Circuit has '' @ str_nat num_domains
                       @ '' isolation domains but only '' @ str_nat (length unique_gnds)
                       @ '' unique GND net(s): '' @ py_repr_list (sort unique_gnds)
                       @ ''. Consider using distinct names like GND_PRI, GND_SEC1, GND_SEC2.'']
               else []))"

text \<open>
  \<open>_check_reserved_name_conflicts\<close> groups the nets that match a reserved pattern by domain
  and then does nothing with the groups (the branch is \<open>pass\<close>): it returns no error.
\<close>

definition check_reserved_name_conflicts :: "snapshot \<Rightarrow> domains \<Rightarrow> string list" where
  "check_reserved_name_conflicts snap doms = []"

definition instance_base_names :: "snapshot \<Rightarrow> (string \<times> (string \<times> bool) list) list" where
  "instance_base_names snap =
     foldl (\<lambda>base_names n.
              (case rsplit_underscore (name n) of
                 Some (base, sfx) \<Rightarrow>
                   if py_str_isdigit sfx then dict_append base (name n, True) base_names
                   else dict_append (name n) (name n, False) base_names
               | None \<Rightarrow> dict_append (name n) (name n, False) base_names))
           [] (nets snap)"

definition check_instance_conflicts :: "snapshot \<Rightarrow> string list" where
  "check_instance_conflicts snap =
     concat (map (\<lambda>(base, instances).
        if list_ex snd instances \<and> list_ex (\<lambda>i. \<not> snd i) instances
        then [''INSTANCE NAMING WARNING: Net '' @ [CHR 0x27] @ base @ [CHR 0x27]
                @ '' exists both with and without numeric suffixes: ''
                @ py_repr_list (sort (map fst instances))
                @ ''. This may indicate incomplete multi-instance naming.'']
        else [])
       (instance_base_names snap))"

definition check_net_conflicts :: "snapshot \<Rightarrow> kg_store option \<Rightarrow> string list" where
  "check_net_conflicts snap kg =
     (let doms = identify_isolation_domains snap kg
      in check_cross_domain_nets snap doms @ check_gnd_naming snap doms
           @ check_reserved_name_conflicts snap doms @ check_instance_conflicts snap)"

definition is_mosfet_part :: "component \<Rightarrow> bool" where
  "is_mosfet_part cmp =
     (let p = py_upper (part_id cmp)
      in sublist ''MOSFET'' p \<or> py_startswith p ''IM'' \<or> py_startswith p ''BSC'')"

definition mosfet_gate_nets :: "snapshot \<Rightarrow> (string \<times> string list) list" where
  "mosfet_gate_nets snap =
     foldl (\<lambda>gate_nets m.
              foldl (\<lambda>gn p.
                       (case net p of
                          None \<Rightarrow> gn
                        | Some n \<Rightarrow>
                            if n = [] \<or> n = ''NC'' then gn
                            else if pin_role p = Some ''mosfet_gate'' then dict_append n (ref m) gn
                            else gn))
                    gate_nets (pins m))
           [] (filter is_mosfet_part (components snap))"

definition check_mosfet_net_conflicts :: "snapshot \<Rightarrow> string list" where
  "check_mosfet_net_conflicts snap =
     concat (map (\<lambda>(n, refs).
        if length refs > 2
        then [''GATE NET WARNING: Net '' @ [CHR 0x27] @ n @ [CHR 0x27] @ '' connects to ''
                @ str_nat (length refs) @ '' MOSFET gates: '' @ py_repr_list refs
                @ ''. This may indicate unintended parallel connection or ''
                @ ''missing numeric suffix for multi-half-bridge design.'']
        else [])
       (mosfet_gate_nets snap))"

section \<open>The complex-task validator (complex_task_validator.py)\<close>

text \<open>
  The stages that \<open>validate_complex_task\<close> calls. Phase 2, the isolation-boundary check, the
  interface check and the system-topology check are taken as they are, as functions that
  return a list of error strings.
\<close>

record stages =
  run_phase2_checks :: "snapshot \<Rightarrow> kg_store option \<Rightarrow> int \<Rightarrow> string list"
  check_isolation_boundary_violations :: "snapshot \<Rightarrow> kg_store option \<Rightarrow> string list"
  stage_check_net_conflicts :: "snapshot \<Rightarrow> kg_store option \<Rightarrow> string list"
  check_interfaces :: "snapshot \<Rightarrow> kg_store option \<Rightarrow> string list"
  check_system_topology :: "snapshot \<Rightarrow> int \<Rightarrow> kg_store option \<Rightarrow> string list"
  stage_check_mosfet_net_conflicts :: "snapshot \<Rightarrow> string list"

text \<open>
  The loop \<open>for err in xs: if 'WARNING' in err: warnings.append(err) else: errors.append(err)\<close>
  on the pair of the errors and the warnings.
\<close>

definition split_warnings :: "string list \<times> string list \<Rightarrow> string list \<Rightarrow> string list \<times> string list" where
  "split_warnings st xs =
     foldl (\<lambda>(errors, warnings) err.
              if sublist ''WARNING'' err then (errors, warnings @ [err])
              else (errors @ [err], warnings))
           st xs"

definition validate_complex_task ::
  "stages \<Rightarrow> snapshot \<Rightarrow> int \<Rightarrow> kg_store option \<Rightarrow> bool \<times> string list \<times> string list" where
  "validate_complex_task sg snap task_id kg =
     (let phase2_errors = run_phase2_checks sg snap kg task_id;
          errors = [] @ phase2_errors;
          warnings = []
      in if phase2_errors \<noteq> [] then (False, errors, warnings)
         else (let errors = errors @ check_isolation_boundary_violations sg snap kg;
                   (errors, warnings) = split_warnings (errors, warnings)
                                          (stage_check_net_conflicts sg snap kg);
                   errors = errors @ check_interfaces sg snap kg;
                   errors = errors @ check_system_topology sg snap task_id kg;
                   (errors, warnings) = split_warnings (errors, warnings)
                                          (stage_check_mosfet_net_conflicts sg snap)
               in (length errors = 0, errors, warnings)))"

text \<open>The stages with the two net-conflict checks of this development in their places.\<close>

definition with_net_checks :: "stages \<Rightarrow> stages" where
  "with_net_checks sg = sg\<lparr>stage_check_net_conflicts := check_net_conflicts,
                            stage_check_mosfet_net_conflicts := check_mosfet_net_conflicts\<rparr>"

section \<open>Statements about isolation domains\<close>

text \<open>The values in the lists of a dict of lists: for a net graph, its neighbour nets.\<close>

definition graph_range :: "('k \<times> 'a list) list \<Rightarrow> 'a set" where
  "graph_range g = \<Union> (set ` snd ` set g)"

fun pairwise_disjoint :: "string list list \<Rightarrow> bool" where
  "pairwise_disjoint [] = True"
| "pairwise_disjoint (d # ds) = (list_all (\<lambda>e. set d \<inter> set e = {}) ds \<and> pairwise_disjoint ds)"

text \<open>
  The isolation partition invariant: the primary set and the secondary sets are pairwise
  disjoint, and every net in them is the name of a net of the snapshot.
\<close>

definition isolation_partition :: "snapshot \<Rightarrow> domains \<Rightarrow> bool" where
  "isolation_partition snap d =
     (pairwise_disjoint (primary d # secondary d) \<and>
      list_all (\<lambda>n. n \<in> name ` set (nets snap)) (primary d @ concat (secondary d)))"

text \<open>
  Every net on a secondary-side pin of an isolation-boundary component is listed among the
  nets of the snapshot.
\<close>

definition secondary_pins_listed :: "snapshot \<Rightarrow> kg_store option \<Rightarrow> bool" where
  "secondary_pins_listed snap kg =
     list_all (\<lambda>ic. list_all (\<lambda>p. pin_in_set (pin_id p) (ic_secondary_pins ic) \<longrightarrow>
                                   (case net p of None \<Rightarrow> True
                                    | Some n \<Rightarrow> n = [] \<or> n \<in> name ` set (nets snap)))
                             (ic_pins ic))
              (find_isolation_components snap kg)"

section \<open>Example snapshots\<close>

text \<open>
  The nets of a list of components, collected as \<open>snapshot_from_circuit\<close> collects them: one
  net for each net name, in the order of first use, with an endpoint for each pin on it.
\<close>

definition nets_of_components :: "component list \<Rightarrow> netrec list" where
  "nets_of_components cs =
     map (\<lambda>(n, eps). \<lparr>name = n, endpoints = eps\<rparr>)
       (foldl (\<lambda>m c. foldl (\<lambda>m' p. case net p of None \<Rightarrow> m'
                                      | Some n \<Rightarrow> dict_append n (mk_ep (ref c) (pin_id p) (pin_name p)) m')
                             m (pins c))
              [] cs)"

definition mk_snapshot :: "component list \<Rightarrow> snapshot" where
  "mk_snapshot cs = \<lparr>components = cs, nets = nets_of_components cs\<rparr>"

text \<open>
  The isolated supply MGJ2D121505SC: pins 1 and 2 are the primary input, pins 5, 6 and 7 the
  isolated outputs (the pin mapping of the sample designs).
\<close>

definition mgj_kg :: kg_store where
  "mgj_kg = \<lparr>component_map = Map.empty,
             kg_component_map = [''MGJ2D121505SC'' \<mapsto>
               \<lparr>kg_category = Some ''isolated_supply'', kg_pin_roles = Map.empty,
                kg_isolation_boundary = True, kg_primary_pins = [PInt 1, PInt 2],
                kg_secondary_pins = [PInt 5, PInt 6, PInt 7]\<rparr>]\<rparr>"

definition mgj :: "string \<Rightarrow> string \<Rightarrow> string \<Rightarrow> string \<Rightarrow> string \<Rightarrow> string \<Rightarrow> component" where
  "mgj r vin vinm voutm zero voutp =
     mk_comp r ''MGJ2D121505SC''
       [mk_pin ''1'' ''+VIN'' (Some vin), mk_pin ''2'' ''-VIN'' (Some vinm),
        mk_pin ''5'' ''-VOUT'' (Some voutm), mk_pin ''6'' ''0V'' (Some zero),
        mk_pin ''7'' ''+VOUT'' (Some voutp)]"

text \<open>Two isolated supplies whose secondary sides both use the net name GND.\<close>

definition s6_snapshot :: snapshot where
  "s6_snapshot = mk_snapshot
     [mgj ''U1'' ''VIN'' ''PGND'' ''VEE1'' ''GND'' ''VDD1'',
      mgj ''U2'' ''VIN'' ''PGND'' ''VEE2'' ''GND'' ''VDD2'']"

text \<open>The same, with GND also as the primary return of both supplies.\<close>

definition s6_shared_gnd_snapshot :: snapshot where
  "s6_shared_gnd_snapshot = mk_snapshot
     [mgj ''U1'' ''VIN'' ''GND'' ''VEE1'' ''GND'' ''VDD1'',
      mgj ''U2'' ''VIN'' ''GND'' ''VEE2'' ''GND'' ''VDD2'']"

text \<open>Two resistors on four nets, none with an anchor name, and no isolation boundary.\<close>

definition two_resistors :: snapshot where
  "two_resistors = mk_snapshot
     [mk_comp ''R1'' ''R'' [mk_pin ''1'' ''~'' (Some ''A''), mk_pin ''2'' ''~'' (Some ''B'')],
      mk_comp ''R2'' ''R'' [mk_pin ''1'' ''~'' (Some ''C''), mk_pin ''2'' ''~'' (Some ''D'')]]"

text \<open>
  An isolated supply whose output pin 6 names the net ISO that the list of nets lacks.
\<close>

definition unlisted_net_snapshot :: snapshot where
  "unlisted_net_snapshot =
     \<lparr>components = [mk_comp ''U1'' ''MGJ2D121505SC''
                       [mk_pin ''1'' ''+VIN'' (Some ''VIN''), mk_pin ''6'' ''0V'' (Some ''ISO'')]],
      nets = [\<lparr>name = ''VIN'', endpoints = [mk_ep ''U1'' ''1'' ''+VIN'']\<rparr>]\<rparr>"

text \<open>Two resistors between the nets VSW and VSW_1: a net name with and without suffix.\<close>

definition suffix_snapshot :: snapshot where
  "suffix_snapshot = mk_snapshot
     [mk_comp ''R1'' ''R'' [mk_pin ''1'' ''~'' (Some ''VSW''), mk_pin ''2'' ''~'' (Some ''VSW_1'')]]"

text \<open>
  Stages for the examples: fixed answers for the four stages that are parameters, with the
  Phase 2 answer given.
\<close>

definition example_stages :: "string list \<Rightarrow> stages" where
  "example_stages phase2 =
     with_net_checks
       \<lparr>run_phase2_checks = (\<lambda>snap kg t. phase2),
        check_isolation_boundary_violations = (\<lambda>snap kg. [''iso'']),
        stage_check_net_conflicts = (\<lambda>snap kg. []),
        check_interfaces = (\<lambda>snap kg. [''interface'']),
        check_system_topology = (\<lambda>snap t kg. [''system'']),
        stage_check_mosfet_net_conflicts = (\<lambda>snap. [])\<rparr>"

section \<open>Snapshot augmentation is idempotent\<close>

lemma augment_pin_idem: "augment_pin roles (augment_pin roles p) = augment_pin roles p"
  by (simp add: augment_pin_def split: option.splits)

lemma augment_component_idem:
  "augment_component kg (augment_component kg c) = augment_component kg c"
  by (cases kg) (simp_all add: augment_component_def Let_def augment_pin_idem o_def)

lemma augment_endpoint_idem:
  "augment_endpoint cs (augment_endpoint cs ep) = augment_endpoint cs ep"
  by (simp add: augment_endpoint_def)

text \<open>
  Claim C5. For every snapshot and every knowledge-graph store (also an absent one),
  augmenting an augmented snapshot changes nothing: the component categories, the pin roles
  and the annotations of the net endpoints are those of the first augmentation.
\<close>

theorem augment_snapshot_idempotent:
  "augment_snapshot (augment_snapshot snap kg) kg = augment_snapshot snap kg"
  by (simp add: augment_snapshot_def Let_def augment_component_idem augment_endpoint_idem o_def)

lemma aug_snap_components:
  "components (augment_snapshot aug_snap (Some aug_kg)) =
     [\<lparr>ref = ''U1'', part_id = ''UCC5390E'', category = Some ''ic'',
        pins = [\<lparr>pin_id = ''1'', pin_name = ''VCC1'', net = Some ''VCC'', pin_role = Some ''primary_vdd''\<rparr>,
                \<lparr>pin_id = ''6'', pin_name = ''OUT'', net = Some ''DRV'', pin_role = Some ''out''\<rparr>]\<rparr>,
      \<lparr>ref = ''R1'', part_id = ''R'', category = Some ''passive'',
        pins = [\<lparr>pin_id = ''1'', pin_name = ''~'', net = Some ''DRV'', pin_role = None\<rparr>,
                \<lparr>pin_id = ''2'', pin_name = ''~'', net = Some ''GATE'', pin_role = None\<rparr>]\<rparr>]"
  by (simp add: augment_snapshot_def aug_snap_def aug_kg_def Let_def augment_component_def
      augment_pin_def get_pin_roles_def get_component_def normalize_part_id_def py_strip_def
      py_isspace_def infer_category_def get_category_def get_component_info_def truthy_def
      mk_comp_def mk_pin_def)

theorem augment_snapshot_idempotent_witness:
  "augment_snapshot (augment_snapshot aug_snap (Some aug_kg)) (Some aug_kg)
     = augment_snapshot aug_snap (Some aug_kg) \<and>
   map (map_option pin_role) [lookup_pin_in (pins c) ''6'' ''OUT''.
        c \<leftarrow> components (augment_snapshot aug_snap (Some aug_kg)), ref c = ''U1'']
     = [Some (Some ''out'')]"
  using augment_snapshot_idempotent [of aug_snap "Some aug_kg"]
  by (simp add: aug_snap_components)

section \<open>Component-count tolerance\<close>










section \<open>The cross-domain check of the net conflict checker\<close>

text \<open>
  The dict \<open>net_domains\<close> is keyed by the net name and holds \<open>get_net_domain\<close> of that name,
  so a name met again is compared with its own domain: no step adds an error.
\<close>

lemma cross_domain_fold:
  assumes "\<forall>(k, v) \<in> set nd. v = get_net_domain k doms"
  shows "snd (foldl (cross_domain_step doms) (nd, errs) ns) = errs"
  using assms
proof (induction ns arbitrary: nd)
  case Nil
  then show ?case by simp
next
  case (Cons n ns)
  show ?case
  proof (cases "map_of nd (name n)")
    case None
    then have step: "cross_domain_step doms (nd, errs) n
                     = (nd @ [(name n, get_net_domain (name n) doms)], errs)"
      by (simp add: cross_domain_step_def Let_def)
    have "\<forall>(k, v) \<in> set (nd @ [(name n, get_net_domain (name n) doms)]). v = get_net_domain k doms"
      using Cons.prems by auto
    from Cons.IH [OF this] step show ?thesis by simp
  next
    case (Some d0)
    then have "(name n, d0) \<in> set nd" by (rule map_of_SomeD)
    then have "d0 = get_net_domain (name n) doms" using Cons.prems by auto
    then have step: "cross_domain_step doms (nd, errs) n = (nd, errs)"
      using Some by (simp add: cross_domain_step_def Let_def)
    from Cons.IH [OF Cons.prems] step show ?thesis by simp
  qed
qed

lemma s6_domains:
  "identify_isolation_domains s6_snapshot (Some mgj_kg) =
     \<lparr>primary = [''VIN'', ''PGND''],
      secondary = [[''VEE1'', ''GND'', ''VDD1'', ''VEE2'', ''VDD2'']]\<rparr>"
  by code_simp

lemma s6_conflicts: "check_net_conflicts s6_snapshot (Some mgj_kg) = []"
  by code_simp

lemma s6_shared_conflicts: "check_net_conflicts s6_shared_gnd_snapshot (Some mgj_kg) = []"
  by code_simp

text \<open>
  Claim C1 says that a net name attributed to two isolation domains yields a NET CONFLICT
  error, as in the scenario of two isolated supplies that share the net GND. The code never
  emits that error: for every snapshot and every domain record the cross-domain check
  returns the empty list.
\<close>

theorem check_cross_domain_nets_silent: "check_cross_domain_nets snap doms = []"
  using cross_domain_fold [of "[]" doms "[]" "nets snap"]
  by (simp add: check_cross_domain_nets_def)

theorem check_cross_domain_nets_silent_witness:
  "check_cross_domain_nets s6_snapshot (identify_isolation_domains s6_snapshot (Some mgj_kg)) = []
   \<and> secondary (identify_isolation_domains s6_snapshot (Some mgj_kg))
       = [[''VEE1'', ''GND'', ''VDD1'', ''VEE2'', ''VDD2'']]
   \<and> check_net_conflicts s6_snapshot (Some mgj_kg) = []
   \<and> check_net_conflicts s6_shared_gnd_snapshot (Some mgj_kg) = []"
  using check_cross_domain_nets_silent
          [of s6_snapshot "identify_isolation_domains s6_snapshot (Some mgj_kg)"]
  by (simp add: s6_domains s6_conflicts s6_shared_conflicts)

section \<open>Snapshots without an isolation boundary\<close>

lemma find_isolation_components_empty:
  "(find_isolation_components snap kg = []) =
     (\<forall>c \<in> set (components snap). \<forall>k e. kg = Some k \<longrightarrow> get_component k (part_id c) = Some e
          \<longrightarrow> \<not> kg_isolation_boundary e)"
  by (cases kg) (auto simp add: find_isolation_components_def split: option.splits)

lemma two_resistors_no_boundary:
  "find_isolation_components two_resistors (Some mgj_kg) = []"
  by code_simp

lemma two_resistors_nets: "map name (nets two_resistors) = [''A'', ''B'', ''C'', ''D'']"
  by code_simp

lemma two_resistors_bfs:
  "find_primary_domain two_resistors (build_net_graph two_resistors []) [] = [''A'', ''B'']"
  by code_simp

text \<open>
  Claim C10. When no component of the snapshot has a knowledge-graph entry that carries
  \<open>isolation_boundary\<close> (or there is no store), \<open>identify_isolation_domains\<close> returns as the
  primary domain the set of all net names of the snapshot and no secondary domain. The
  anchor seeds play no part: the result is not the search from the seeds, which for the two
  separate resistors of the witness would reach two of the four nets only.
\<close>

theorem no_boundary_all_primary:
  assumes "\<forall>c \<in> set (components snap). \<forall>k e. kg = Some k \<longrightarrow> get_component k (part_id c) = Some e
          \<longrightarrow> \<not> kg_isolation_boundary e"
  shows "identify_isolation_domains snap kg
           = \<lparr>primary = remdups (map name (nets snap)), secondary = []\<rparr>
         \<and> set (primary (identify_isolation_domains snap kg)) = name ` set (nets snap)"
  using assms find_isolation_components_empty [of snap kg]
  by (simp add: identify_isolation_domains_def Let_def)

theorem no_boundary_all_primary_witness:
  "identify_isolation_domains two_resistors (Some mgj_kg)
     = \<lparr>primary = [''A'', ''B'', ''C'', ''D''], secondary = []\<rparr>
   \<and> find_primary_domain two_resistors (build_net_graph two_resistors []) [] = [''A'', ''B'']"
  using no_boundary_all_primary [of two_resistors "Some mgj_kg"]
    find_isolation_components_empty [of two_resistors "Some mgj_kg"]
  by (simp add: two_resistors_no_boundary two_resistors_nets two_resistors_bfs)

section \<open>The pipeline of the complex-task validator\<close>

lemma split_warnings_filter:
  "split_warnings (es, ws) xs =
     (es @ filter (\<lambda>e. \<not> sublist ''WARNING'' e) xs, ws @ filter (\<lambda>e. sublist ''WARNING'' e) xs)"
  by (induction xs arbitrary: es ws) (simp_all add: split_warnings_def)

text \<open>
  Claim C2. If the Phase 2 check returns a non-empty list, \<open>validate_complex_task\<close> returns
  failed with exactly those errors and no warning, whatever the later stages would return.
  Otherwise its errors are, in this order and with nothing sorted or removed, the
  isolation-boundary errors, the net-conflict entries without \<open>WARNING\<close>, the interface
  errors, the system-topology errors and the MOSFET net-conflict entries without
  \<open>WARNING\<close>; the entries with \<open>WARNING\<close> are the warnings; it passes when there is no error.
\<close>

theorem validate_complex_task_pipeline:
  "(run_phase2_checks sg snap kg t \<noteq> [] \<longrightarrow>
      validate_complex_task sg snap t kg = (False, run_phase2_checks sg snap kg t, []))
   \<and> (run_phase2_checks sg snap kg t = [] \<longrightarrow>
      validate_complex_task sg snap t kg =
        (let errors = check_isolation_boundary_violations sg snap kg
                      @ filter (\<lambda>e. \<not> sublist ''WARNING'' e) (stage_check_net_conflicts sg snap kg)
                      @ check_interfaces sg snap kg
                      @ check_system_topology sg snap t kg
                      @ filter (\<lambda>e. \<not> sublist ''WARNING'' e) (stage_check_mosfet_net_conflicts sg snap)
         in (errors = [], errors,
             filter (\<lambda>e. sublist ''WARNING'' e) (stage_check_net_conflicts sg snap kg)
             @ filter (\<lambda>e. sublist ''WARNING'' e) (stage_check_mosfet_net_conflicts sg snap))))"
  by (simp add: validate_complex_task_def Let_def split_warnings_filter)

lemma suffix_conflicts:
  "check_net_conflicts suffix_snapshot None =
    [''INSTANCE NAMING WARNING: Net '' @ [CHR 0x27] @ ''VSW'' @ [CHR 0x27]
       @ '' exists both with and without numeric suffixes: ''
       @ ''['' @ [CHR 0x27] @ ''VSW'' @ [CHR 0x27] @ '', '' @ [CHR 0x27] @ ''VSW_1'' @ [CHR 0x27] @ '']''
       @ ''. This may indicate incomplete multi-instance naming.'']"
  by code_simp

lemma suffix_mosfet: "check_mosfet_net_conflicts suffix_snapshot = []"
  by code_simp

lemma suffix_warning: "sublist ''WARNING'' (hd (check_net_conflicts suffix_snapshot None))"
  unfolding suffix_conflicts by code_simp

theorem validate_complex_task_pipeline_witness:
  "validate_complex_task (example_stages [''phase2'']) suffix_snapshot 20 None
     = (False, [''phase2''], [])
   \<and> validate_complex_task (example_stages []) suffix_snapshot 20 None
     = (False, [''iso'', ''interface'', ''system''], check_net_conflicts suffix_snapshot None)
   \<and> length (check_net_conflicts suffix_snapshot None) = 1"
  using validate_complex_task_pipeline [of "example_stages [''phase2'']" suffix_snapshot None 20]
    validate_complex_task_pipeline [of "example_stages []" suffix_snapshot None 20]
    suffix_warning
  by (simp add: example_stages_def with_net_checks_def suffix_mosfet suffix_conflicts Let_def)


end
